theory Spec2Isabelle
  imports Main
begin

section \<open>Python values and exceptions\<close>

text \<open>
  The constructor of \<open>PhoneNumber\<close> accepts any Python object and tests it with
  \<open>isinstance(number, (str, int))\<close>. A value is therefore a string, an integer, a
  boolean (\<open>bool\<close> is a subclass of \<open>int\<close>, so it passes the test) or some other
  object. Characters are Isabelle's \<open>char\<close>, read as the code points below 256; every
  character the program treats specially (digits, letters, tab, white space) is among them.
\<close>

datatype py_value = PyStr string | PyInt int | PyBool bool | PyOther

text \<open>
  An exception is its class and its message. The messages of the two \<open>raise ValueError\<close>
  statements are the only thing that tells a wrong length from a wrong code.
\<close>

datatype exception = TypeError string | ValueError string | IndexError string

definition TypeMismatch :: exception where
  "TypeMismatch = TypeError ''Phone number must be a string or integer.''"

definition InvalidLength :: exception where
  "InvalidLength = ValueError ''Phone number must have exactly 10 or 11 digits.''"

definition InvalidCode :: exception where
  "InvalidCode = ValueError ''Phone number contains an invalid area code or exchange code.''"

section \<open>Built-in operations of Python used by the program\<close>

text \<open>\<open>str(n)\<close> for an integer: the decimal digits, most significant first, after a
  minus sign when the number is negative. \<open>str\<close> of a string is the string itself. The
  constructor rejects every other object before it calls \<open>str\<close>, so the last equation
  of \<open>py_str\<close> is never used.\<close>

definition digit_char :: "nat \<Rightarrow> char" where
  "digit_char d = ''0123456789'' ! d"

fun str_nat :: "nat \<Rightarrow> string" where
  "str_nat n = (if n < 10 then [digit_char n] else str_nat (n div 10) @ [digit_char (n mod 10)])"

declare str_nat.simps [simp del]

definition str_int :: "int \<Rightarrow> string" where
  "str_int i = (if i < 0 then CHR ''-'' # str_nat (nat (- i)) else str_nat (nat i))"

fun py_str :: "py_value \<Rightarrow> string" where
  "py_str (PyStr s) = s"
| "py_str (PyInt i) = str_int i"
| "py_str (PyBool b) = (if b then ''True'' else ''False'')"
| "py_str PyOther = ''''"

text \<open>The character classes of the pattern \<open>[^0-9a-zA-Z]\<close>, as ranges of code points.\<close>

definition is_digit :: "char \<Rightarrow> bool" where
  "is_digit c = (48 \<le> (of_char c :: nat) \<and> (of_char c :: nat) \<le> 57)"

definition is_lower :: "char \<Rightarrow> bool" where
  "is_lower c = (97 \<le> (of_char c :: nat) \<and> (of_char c :: nat) \<le> 122)"

definition is_upper :: "char \<Rightarrow> bool" where
  "is_upper c = (65 \<le> (of_char c :: nat) \<and> (of_char c :: nat) \<le> 90)"

definition is_alnum :: "char \<Rightarrow> bool" where
  "is_alnum c = (is_digit c \<or> is_lower c \<or> is_upper c)"

text \<open>\<open>re.sub(r'[^0-9a-zA-Z]', '', s)\<close> deletes every character outside the three ranges.\<close>

definition re_sub_non_alnum :: "string \<Rightarrow> string" where
  "re_sub_non_alnum s = filter is_alnum s"

text \<open>
  \<open>int(s)\<close> on a string: the constructor only ever stores letters and digits in a
  field, so the model covers such strings. A string of decimal digits is read most
  significant digit first; anything else (a letter, the empty string) raises ValueError
  with the message of CPython.
\<close>

definition digit_value :: "char \<Rightarrow> int" where
  "digit_value c = int (of_char c) - 48"

definition invalid_literal :: "string \<Rightarrow> exception" where
  "invalid_literal s =
     ValueError (''invalid literal for int() with base 10: '' @ [CHR 0x27] @ s @ [CHR 0x27])"

definition py_int :: "string \<Rightarrow> exception + int" where
  "py_int s = (if s \<noteq> [] \<and> list_all is_digit s
               then Inr (foldl (\<lambda>acc c. 10 * acc + digit_value c) 0 s)
               else Inl (invalid_literal s))"

text \<open>\<open>s[0]\<close> raises IndexError on the empty string.\<close>

definition getitem0 :: "string \<Rightarrow> exception + char" where
  "getitem0 s = (case s of [] \<Rightarrow> Inl (IndexError ''string index out of range'') | c # _ \<Rightarrow> Inr c)"

section \<open>The PhoneNumber class\<close>

definition LETTER_TO_NUMBER :: "char \<rightharpoonup> char" where
  "LETTER_TO_NUMBER = map_of
     [(CHR ''A'', CHR ''2''), (CHR ''B'', CHR ''2''), (CHR ''C'', CHR ''2''),
      (CHR ''D'', CHR ''3''), (CHR ''E'', CHR ''3''), (CHR ''F'', CHR ''3''),
      (CHR ''G'', CHR ''4''), (CHR ''H'', CHR ''4''), (CHR ''I'', CHR ''4''),
      (CHR ''J'', CHR ''5''), (CHR ''K'', CHR ''5''), (CHR ''L'', CHR ''5''),
      (CHR ''M'', CHR ''6''), (CHR ''N'', CHR ''6''), (CHR ''O'', CHR ''6''),
      (CHR ''P'', CHR ''7''), (CHR ''Q'', CHR ''7''), (CHR ''R'', CHR ''7''),
      (CHR ''S'', CHR ''7''),
      (CHR ''T'', CHR ''8''), (CHR ''U'', CHR ''8''), (CHR ''V'', CHR ''8''),
      (CHR ''W'', CHR ''9''), (CHR ''X'', CHR ''9''), (CHR ''Y'', CHR ''9''),
      (CHR ''Z'', CHR ''9'')]"

record PhoneNumber =
  area_code :: string
  exchange_code :: string
  line_number :: string

text \<open>The loop that builds \<open>stack\<close>: a letter that is a key of the table is replaced by
  its digit, every other character is appended as it is.\<close>

fun translate_loop :: "string \<Rightarrow> string \<Rightarrow> string" where
  "translate_loop stack [] = stack"
| "translate_loop stack (char # rest) =
     translate_loop
       (case LETTER_TO_NUMBER char of Some d \<Rightarrow> stack @ [d] | None \<Rightarrow> stack @ [char]) rest"

text \<open>The character that one step of the loop appends for \<open>char\<close>.\<close>

definition keypad :: "char \<Rightarrow> char" where
  "keypad c = (case LETTER_TO_NUMBER c of Some d \<Rightarrow> d | None \<Rightarrow> c)"

definition invalid_codes :: "string list" where
  "invalid_codes = [''011'', ''111'', ''211'', ''311'', ''411'', ''511'', ''611'', ''711'',
                    ''811'', ''911'']"

text \<open>The two validation statements at the end of the constructor. Python's \<open>or\<close>
  evaluates its operands from the left and stops at the first true one.\<close>

definition validate :: "PhoneNumber \<Rightarrow> exception + PhoneNumber" where
  "validate self =
     (case getitem0 (area_code self) of
        Inl e \<Rightarrow> Inl e
      | Inr a0 \<Rightarrow>
          if a0 \<in> set ''01'' then Inl InvalidCode
          else (case getitem0 (exchange_code self) of
             Inl e \<Rightarrow> Inl e
           | Inr e0 \<Rightarrow>
               if e0 \<in> set ''01'' \<or> drop 1 (exchange_code self) = ''11'' then Inl InvalidCode
               else if area_code self \<in> set invalid_codes \<or> exchange_code self \<in> set invalid_codes
               then Inl InvalidCode
               else Inr self))"

definition PhoneNumber_init :: "py_value \<Rightarrow> exception + PhoneNumber" where
  "PhoneNumber_init number =
     (if number = PyOther then Inl TypeMismatch
      else
        let number_str = re_sub_non_alnum (py_str number);
            stack = translate_loop [] number_str
        in if length number_str = 10
           then validate \<lparr>area_code = take 3 stack,
                           exchange_code = take 3 (drop 3 stack),
                           line_number = drop 6 stack\<rparr>
           else if length number_str = 11 \<and> hd number_str = CHR ''1''
           then validate \<lparr>area_code = take 3 (drop 1 stack),
                           exchange_code = take 3 (drop 4 stack),
                           line_number = drop 7 stack\<rparr>
           else Inl InvalidLength)"

definition PhoneNumber_int :: "PhoneNumber \<Rightarrow> exception + int" where
  "PhoneNumber_int self = py_int (area_code self @ exchange_code self @ line_number self)"

definition PhoneNumber_str :: "PhoneNumber \<Rightarrow> string" where
  "PhoneNumber_str self =
     ''('' @ area_code self @ '') '' @ exchange_code self @ ''-'' @ line_number self"

definition PhoneNumber_lt :: "PhoneNumber \<Rightarrow> PhoneNumber \<Rightarrow> exception + bool" where
  "PhoneNumber_lt self other =
     (case PhoneNumber_int self of
        Inl e \<Rightarrow> Inl e
      | Inr a \<Rightarrow> (case PhoneNumber_int other of Inl e \<Rightarrow> Inl e | Inr b \<Rightarrow> Inr (a < b)))"

section \<open>Reading the directory\<close>

text \<open>
  \<open>str.strip()\<close> removes the white space at both ends. Among the code points below 256,
  \<open>str.isspace\<close> holds of 0x09 to 0x0D, 0x1C to 0x20, 0x85 and 0xA0.
\<close>

definition is_space :: "char \<Rightarrow> bool" where
  "is_space c = (let n = (of_char c :: nat) in
     (9 \<le> n \<and> n \<le> 13) \<or> (28 \<le> n \<and> n \<le> 32) \<or> n = 133 \<or> n = 160)"

definition strip :: "string \<Rightarrow> string" where
  "strip s = rev (dropWhile is_space (rev (dropWhile is_space s)))"

text \<open>\<open>s.split(sep)\<close> for a separator of one character: the fields between the
  separators, one more than there are separators.\<close>

fun split_loop :: "char \<Rightarrow> string \<Rightarrow> string \<Rightarrow> string list" where
  "split_loop sep cur [] = [cur]"
| "split_loop sep cur (c # cs) =
     (if c = sep then cur # split_loop sep [] cs else split_loop sep (cur @ [c]) cs)"

definition split :: "char \<Rightarrow> string \<Rightarrow> string list" where
  "split sep s = split_loop sep [] s"

definition TAB :: char where
  "TAB = CHR 0x09"

text \<open>
  The unpacking \<open>name, number = ...\<close> needs exactly two fields and raises ValueError
  otherwise (the wording of the message is CPython's, up to version 3.13). \<open>split\<close>
  never returns an empty list, so too few fields means one.
\<close>

definition unpack_error :: "string list \<Rightarrow> exception" where
  "unpack_error parts =
     (if length parts < 2 then ValueError ''not enough values to unpack (expected 2, got 1)''
      else ValueError ''too many values to unpack (expected 2)'')"

type_synonym entry = "string \<times> PhoneNumber"

text \<open>
  The loop over the lines of the file. The unpacking stands before the \<open>try\<close>, so its
  ValueError leaves the function; inside the \<open>try\<close>, a TypeError or ValueError of the
  constructor is dropped and the line is skipped, any other exception goes on.
\<close>

fun read_loop :: "entry list \<Rightarrow> string list \<Rightarrow> exception + entry list" where
  "read_loop tup_list [] = Inr tup_list"
| "read_loop tup_list (line # rest) =
     (case split TAB (strip line) of
        [name, number] \<Rightarrow>
          (case PhoneNumber_init (PyStr number) of
             Inr phone_number \<Rightarrow> read_loop (tup_list @ [(name, phone_number)]) rest
           | Inl (TypeError m) \<Rightarrow> read_loop tup_list rest
           | Inl (ValueError m) \<Rightarrow> read_loop tup_list rest
           | Inl (IndexError m) \<Rightarrow> Inl (IndexError m))
      | parts \<Rightarrow> Inl (unpack_error parts))"

text \<open>
  \<open>tup_list.sort(key=lambda x: x[1])\<close> compares the numbers with \<open>__lt__\<close> only. The
  model is the stable insertion sort: an entry moves to the right past the entries that
  are less than it. As in CPython's sort, a list of fewer than two entries is returned
  without any comparison, in a longer list every entry is compared at least once, and an
  exception of a comparison leaves the sort.
\<close>

fun insert_entry :: "entry \<Rightarrow> entry list \<Rightarrow> exception + entry list" where
  "insert_entry x [] = Inr [x]"
| "insert_entry x (y # ys) =
     (case PhoneNumber_lt (snd y) (snd x) of
        Inl e \<Rightarrow> Inl e
      | Inr b \<Rightarrow>
          if b then (case insert_entry x ys of Inl e \<Rightarrow> Inl e | Inr r \<Rightarrow> Inr (y # r))
          else Inr (x # y # ys))"

fun list_sort :: "entry list \<Rightarrow> exception + entry list" where
  "list_sort [] = Inr []"
| "list_sort (x # xs) =
     (case list_sort xs of Inl e \<Rightarrow> Inl e | Inr r \<Rightarrow> insert_entry x r)"

text \<open>\<open>read_numbers\<close>, given the lines that iterating over the file yields.\<close>

definition read_numbers :: "string list \<Rightarrow> exception + entry list" where
  "read_numbers lines =
     (case read_loop [] lines of Inl e \<Rightarrow> Inl e | Inr tup_list \<Rightarrow> list_sort tup_list)"

section \<open>Notions of the specification\<close>

text \<open>A string of digits read as a base-10 integer: each digit counts with the power of
  ten of its place.\<close>

fun decimal_value :: "string \<Rightarrow> int" where
  "decimal_value [] = 0"
| "decimal_value (c # cs) = digit_value c * 10 ^ length cs + decimal_value cs"

text \<open>The upper-case form of a string: the 26 lower-case letters are replaced, every other
  character stays.\<close>

definition upper_char :: "char \<Rightarrow> char" where
  "upper_char c =
     (case map_of (zip ''abcdefghijklmnopqrstuvwxyz'' ''ABCDEFGHIJKLMNOPQRSTUVWXYZ'') c of
        Some u \<Rightarrow> u
      | None \<Rightarrow> c)"

definition upper :: "string \<Rightarrow> string" where
  "upper s = map upper_char s"


section \<open>Characters and the keypad table\<close>

lemma translate_loop_map: "translate_loop stack s = stack @ map keypad s"
  by (induction s arbitrary: stack) (auto simp: keypad_def split: option.splits)

lemma upper_codes: "map of_char ''ABCDEFGHIJKLMNOPQRSTUVWXYZ'' = [65..<91::nat]"
  by (simp add: upt_rec)

lemma is_upper_iff: "is_upper c = (c \<in> set ''ABCDEFGHIJKLMNOPQRSTUVWXYZ'')"
proof -
  have "is_upper c = ((of_char c :: nat) \<in> set [65..<91])"
    unfolding is_upper_def set_upt atLeastLessThan_iff by arith
  also have "\<dots> = ((of_char c :: nat) \<in> of_char ` set ''ABCDEFGHIJKLMNOPQRSTUVWXYZ'')"
    by (simp only: upper_codes [symmetric] set_map)
  also have "\<dots> = (c \<in> set ''ABCDEFGHIJKLMNOPQRSTUVWXYZ'')"
    by (rule inj_image_mem_iff) (rule inj_of_char)
  finally show ?thesis .
qed

lemma dom_LETTER_TO_NUMBER: "dom LETTER_TO_NUMBER = set ''ABCDEFGHIJKLMNOPQRSTUVWXYZ''"
  unfolding LETTER_TO_NUMBER_def dom_map_of_conv_image_fst by simp

lemma LETTER_TO_NUMBER_None: "(LETTER_TO_NUMBER c = None) = (\<not> is_upper c)"
proof -
  have "(LETTER_TO_NUMBER c = None) = (c \<notin> dom LETTER_TO_NUMBER)"
    by (simp only: domIff simp_thms)
  then show ?thesis
    by (simp only: dom_LETTER_TO_NUMBER is_upper_iff)
qed

lemma ran_LETTER_TO_NUMBER: "LETTER_TO_NUMBER c = Some d \<Longrightarrow> d \<in> set ''23456789''"
  unfolding LETTER_TO_NUMBER_def by (drule map_of_SomeD) auto

section \<open>The constructor, case by case\<close>

lemma keypad_not_upper: "\<not> is_upper c \<Longrightarrow> keypad c = c"
proof -
  assume "\<not> is_upper c"
  then have "LETTER_TO_NUMBER c = None"
    using LETTER_TO_NUMBER_None [of c] by blast
  then show ?thesis
    by (simp add: keypad_def)
qed

lemma digit_not_upper: "is_digit c \<Longrightarrow> \<not> is_upper c"
  by (simp add: is_digit_def is_upper_def)

lemma lower_not_upper: "is_lower c \<Longrightarrow> \<not> is_upper c"
  by (simp add: is_lower_def is_upper_def)

lemma keypad_digits: "d \<in> set ''23456789'' \<Longrightarrow> is_digit d"
  by (auto simp: is_digit_def)

lemma keypad_upper: "is_upper c \<Longrightarrow> keypad c \<in> set ''23456789''"
proof -
  assume "is_upper c"
  then obtain d where d: "LETTER_TO_NUMBER c = Some d"
    using LETTER_TO_NUMBER_None [of c] by auto
  then show ?thesis
    using ran_LETTER_TO_NUMBER [OF d] by (simp add: keypad_def)
qed

lemma keypad_alnum: "is_alnum c \<Longrightarrow> is_digit (keypad c) \<or> is_lower (keypad c)"
  unfolding is_alnum_def
  using keypad_upper [of c] keypad_digits [of "keypad c"] keypad_not_upper [of c]
    digit_not_upper [of c] lower_not_upper [of c]
  by metis

lemma keypad_idem: "is_digit c \<or> is_lower c \<Longrightarrow> keypad c = c"
  using keypad_not_upper digit_not_upper lower_not_upper by blast

lemma messages_differ: "InvalidLength \<noteq> InvalidCode"
  by (simp add: InvalidLength_def InvalidCode_def)

lemma PhoneNumber_init_length10:
  assumes "number \<noteq> PyOther" and "length (re_sub_non_alnum (py_str number)) = 10"
  shows "PhoneNumber_init number =
    validate \<lparr>area_code = take 3 (map keypad (re_sub_non_alnum (py_str number))),
              exchange_code = take 3 (drop 3 (map keypad (re_sub_non_alnum (py_str number)))),
              line_number = drop 6 (map keypad (re_sub_non_alnum (py_str number)))\<rparr>"
  using assms by (simp add: PhoneNumber_init_def Let_def translate_loop_map)

lemma PhoneNumber_init_length11:
  assumes "number \<noteq> PyOther" and "length (re_sub_non_alnum (py_str number)) = 11"
    and "hd (re_sub_non_alnum (py_str number)) = CHR ''1''"
  shows "PhoneNumber_init number =
    validate \<lparr>area_code = take 3 (drop 1 (map keypad (re_sub_non_alnum (py_str number)))),
              exchange_code = take 3 (drop 4 (map keypad (re_sub_non_alnum (py_str number)))),
              line_number = drop 7 (map keypad (re_sub_non_alnum (py_str number)))\<rparr>"
  using assms by (simp add: PhoneNumber_init_def Let_def translate_loop_map)

lemma PhoneNumber_init_other_length:
  assumes "number \<noteq> PyOther" and "length (re_sub_non_alnum (py_str number)) \<noteq> 10"
    and "\<not> (length (re_sub_non_alnum (py_str number)) = 11 \<and> hd (re_sub_non_alnum (py_str number)) = CHR ''1'')"
  shows "PhoneNumber_init number = Inl InvalidLength"
  using assms by (auto simp add: PhoneNumber_init_def Let_def)

lemma validate_nonempty:
  assumes "area_code p \<noteq> []" and "exchange_code p \<noteq> []"
  shows "validate p =
    (if hd (area_code p) \<in> set ''01'' \<or> hd (exchange_code p) \<in> set ''01''
        \<or> drop 1 (exchange_code p) = ''11''
        \<or> area_code p \<in> set invalid_codes \<or> exchange_code p \<in> set invalid_codes
     then Inl InvalidCode else Inr p)"
  using assms by (cases "area_code p"; cases "exchange_code p") (simp_all add: validate_def getitem0_def)

lemma validate_Inr: "validate q = Inr p \<Longrightarrow> q = p"
  by (auto simp: validate_def split: sum.splits if_splits)

section \<open>Inputs of the wrong length\<close>

text \<open>
  Claim C5. For every string or integer input whose cleaned form (letters and digits only)
  has a length other than 10, and other than 11 with the literal digit 1 as its first
  character, the constructor fails with the length error; neither the decomposition nor
  the validation of the codes is reached.
\<close>

theorem invalid_length:
  assumes "number \<noteq> PyOther"
    and "number_str = re_sub_non_alnum (py_str number)"
    and "length number_str \<noteq> 10"
    and "\<not> (length number_str = 11 \<and> hd number_str = CHR ''1'')"
  shows "PhoneNumber_init number = Inl InvalidLength"
  using assms PhoneNumber_init_other_length [of number] by simp

lemma clean_example_21255501001: "re_sub_non_alnum ''212-555-01001'' = ''21255501001''"
  by (simp add: re_sub_non_alnum_def is_alnum_def is_digit_def is_lower_def is_upper_def)

theorem invalid_length_witness:
  "PhoneNumber_init (PyStr ''212-555-01001'') = Inl InvalidLength
   \<and> PhoneNumber_init (PyInt 555) = Inl InvalidLength
   \<and> re_sub_non_alnum (py_str (PyStr ''212-555-01001'')) = ''21255501001''"
proof -
  have a: "PhoneNumber_init (PyStr ''212-555-01001'') = Inl InvalidLength"
    by (rule invalid_length [where number_str = "''21255501001''"])
       (simp_all add: clean_example_21255501001)
  have "re_sub_non_alnum (py_str (PyInt 555)) = ''555''"
    by (simp add: str_int_def str_nat.simps digit_char_def re_sub_non_alnum_def is_alnum_def is_digit_def)
  then have b: "PhoneNumber_init (PyInt 555) = Inl InvalidLength"
    by (intro invalid_length [where number_str = "''555''"]) simp_all
  show ?thesis using a b by (simp add: clean_example_21255501001)
qed

section \<open>Invalid area and exchange codes\<close>

lemma clean_example_eve: "re_sub_non_alnum ''123-456-7890'' = ''1234567890''"
  by (simp add: re_sub_non_alnum_def is_alnum_def is_digit_def is_lower_def is_upper_def)

text \<open>
  Claim C4. For every string or integer input whose cleaned form has length 10, or length
  11 with the literal digit 1 in front, the constructor fails with the code error
  exactly when the decomposed area code or exchange code starts with 0 or 1, or is one
  of 011, 111, 211, 311, 411, 511, 611, 711, 811, 911, or the last two characters of the
  exchange code are 11. In every other case it returns the three fields: the line
  number is never rejected.
\<close>

theorem invalid_code_iff:
  assumes "number \<noteq> PyOther"
    and "number_str = re_sub_non_alnum (py_str number)"
    and "stack = translate_loop [] number_str"
    and "length number_str = 10 \<and> k = 0
         \<or> length number_str = 11 \<and> hd number_str = CHR ''1'' \<and> k = 1"
    and "a = take 3 (drop k stack)"
    and "e = take 3 (drop (k + 3) stack)"
    and "l = drop (k + 6) stack"
  shows "(PhoneNumber_init number = Inl InvalidCode) =
           (hd a = CHR ''0'' \<or> hd a = CHR ''1'' \<or> hd e = CHR ''0'' \<or> hd e = CHR ''1''
            \<or> a \<in> set invalid_codes \<or> e \<in> set invalid_codes \<or> drop 1 e = ''11'')
         \<and> (PhoneNumber_init number = Inl InvalidCode
            \<or> PhoneNumber_init number =
                 Inr \<lparr>area_code = a, exchange_code = e, line_number = l\<rparr>)"
proof -
  let ?p = "\<lparr>area_code = a, exchange_code = e, line_number = l\<rparr>"
  have st: "stack = map keypad number_str"
    using assms(3) by (simp add: translate_loop_map)
  have len: "length stack = 10 + k"
    using assms(4) st by auto
  have init: "PhoneNumber_init number = validate ?p"
  proof (cases "k = 0")
    case True
    then have "length (re_sub_non_alnum (py_str number)) = 10"
      using assms(2,4) by auto
    from PhoneNumber_init_length10 [OF assms(1) this] show ?thesis
      using True assms(2,5,6,7) st by simp
  next
    case False
    then have k: "k = 1" and "length (re_sub_non_alnum (py_str number)) = 11"
      and "hd (re_sub_non_alnum (py_str number)) = CHR ''1''"
      using assms(2,4) by auto
    from PhoneNumber_init_length11 [OF assms(1) this(2,3)] show ?thesis
      using k assms(2,5,6,7) st by simp
  qed
  have ne: "area_code ?p \<noteq> []" "exchange_code ?p \<noteq> []"
    using len assms(5,6) by auto
  show ?thesis
    unfolding init validate_nonempty [OF ne] by auto
qed

theorem invalid_code_iff_witness:
  "PhoneNumber_init (PyStr ''123-456-7890'') = Inl InvalidCode
   \<and> re_sub_non_alnum (py_str (PyStr ''123-456-7890'')) = ''1234567890''
   \<and> hd (take 3 (drop 0 (translate_loop [] ''1234567890''))) = CHR ''1''"
proof -
  have t: "translate_loop [] ''1234567890'' = ''1234567890''"
    by (simp add: LETTER_TO_NUMBER_def)
  have "(PhoneNumber_init (PyStr ''123-456-7890'') = Inl InvalidCode) =
           (hd ''123'' = CHR ''0'' \<or> hd ''123'' = CHR ''1'' \<or> hd ''456'' = CHR ''0''
            \<or> hd ''456'' = CHR ''1''
            \<or> ''123'' \<in> set invalid_codes \<or> ''456'' \<in> set invalid_codes
            \<or> drop 1 ''456'' = ''11'')
         \<and> (PhoneNumber_init (PyStr ''123-456-7890'') = Inl InvalidCode
            \<or> PhoneNumber_init (PyStr ''123-456-7890'') =
                 Inr \<lparr>area_code = ''123'', exchange_code = ''456'', line_number = ''7890''\<rparr>)"
    by (rule invalid_code_iff [where number_str = "''1234567890''"
          and stack = "''1234567890''" and k = 0])
       (simp_all add: clean_example_eve t del: translate_loop.simps)
  then have "PhoneNumber_init (PyStr ''123-456-7890'') = Inl InvalidCode"
    by simp
  then show ?thesis
    by (simp add: clean_example_eve t del: translate_loop.simps)
qed

section \<open>The country prefix\<close>

lemma is_alnum_one: "is_alnum (CHR ''1'')"
  by (simp add: is_alnum_def is_digit_def)

lemma clean_example_plain: "re_sub_non_alnum ''2125550100'' = ''2125550100''"
  by (simp add: re_sub_non_alnum_def is_alnum_def is_digit_def)

lemma keypad_example_plain: "map keypad ''2125550100'' = ''2125550100''"
  by (simp add: keypad_def LETTER_TO_NUMBER_def)

lemma init_example_plain:
  "PhoneNumber_init (PyStr ''2125550100'') =
     Inr \<lparr>area_code = ''212'', exchange_code = ''555'', line_number = ''0100''\<rparr>"
proof -
  have "length (re_sub_non_alnum (py_str (PyStr ''2125550100''))) = 10"
    by (simp add: clean_example_plain)
  from PhoneNumber_init_length10 [OF _ this] show ?thesis
    unfolding py_str.simps clean_example_plain keypad_example_plain
    by (simp add: validate_nonempty invalid_codes_def)
qed

text \<open>
  Claim C6. For every input n whose cleaned form has 10 characters and on which the
  constructor succeeds, the constructor also succeeds on n with the digit 1 put in
  front, and the number it builds has the same area code, exchange code and line number.
\<close>

theorem leading_one_same_number:
  assumes "length (re_sub_non_alnum n) = 10"
    and "PhoneNumber_init (PyStr n) = Inr p"
  shows "PhoneNumber_init (PyStr (CHR ''1'' # n)) = Inr p"
proof -
  have c: "re_sub_non_alnum (CHR ''1'' # n) = CHR ''1'' # re_sub_non_alnum n"
    by (simp add: re_sub_non_alnum_def is_alnum_one)
  have l: "length (re_sub_non_alnum (py_str (PyStr (CHR ''1'' # n)))) = 11"
    and h: "hd (re_sub_non_alnum (py_str (PyStr (CHR ''1'' # n)))) = CHR ''1''"
    using assms(1) c by simp_all
  have "PhoneNumber_init (PyStr (CHR ''1'' # n)) = PhoneNumber_init (PyStr n)"
    using PhoneNumber_init_length11 [OF _ l h]
      PhoneNumber_init_length10 [of "PyStr n"] assms(1)
    by (simp add: c)
  then show ?thesis
    using assms(2) by simp
qed

theorem leading_one_same_number_witness:
  "length (re_sub_non_alnum ''2125550100'') = 10
   \<and> PhoneNumber_init (PyStr ''2125550100'') =
       Inr \<lparr>area_code = ''212'', exchange_code = ''555'', line_number = ''0100''\<rparr>
   \<and> PhoneNumber_init (PyStr ''12125550100'') =
       Inr \<lparr>area_code = ''212'', exchange_code = ''555'', line_number = ''0100''\<rparr>"
proof -
  have l: "length (re_sub_non_alnum ''2125550100'') = 10"
    by (simp add: clean_example_plain)
  from leading_one_same_number [OF l init_example_plain] l init_example_plain
  show ?thesis by simp
qed

section \<open>Ten digits\<close>

lemma foldl_decimal:
  "foldl (\<lambda>acc c. 10 * acc + digit_value c) a s = a * 10 ^ length s + decimal_value s"
  by (induction s arbitrary: a) (simp_all add: algebra_simps)

lemma py_int_digits:
  assumes "s \<noteq> []" and "list_all is_digit s"
  shows "py_int s = Inr (decimal_value s)"
  using assms by (simp add: py_int_def foldl_decimal)

lemma clean_alnum: "list_all is_alnum s \<Longrightarrow> re_sub_non_alnum s = s"
  by (induction s) (simp_all add: re_sub_non_alnum_def)

lemma map_keypad_digits: "list_all is_digit s \<Longrightarrow> map keypad s = s"
  by (induction s) (simp_all add: keypad_idem)

lemma digits_alnum: "list_all is_digit s \<Longrightarrow> list_all is_alnum s"
  by (induction s) (simp_all add: is_alnum_def)

lemma take_drop_fields: "take 3 s @ take 3 (drop 3 s) @ drop 6 s = s"
proof -
  have "take 3 (drop 3 s) @ drop 6 s = drop 3 s"
    using append_take_drop_id [of 3 "drop 3 s"] by simp
  then show ?thesis by simp
qed

text \<open>
  Claim C1. For every input of exactly 10 digits whose area code (digits 1 to 3) and
  exchange code (digits 4 to 6) satisfy the structural rules (first digit 2 to 9, not one
  of the reserved codes, exchange code not ending in 11), the constructor succeeds, and
  the integer value of the number it builds is the input read as a base-10 integer.
\<close>

theorem valid_digits_roundtrip:
  assumes "length n = 10" and "list_all is_digit n"
    and "hd n \<in> set ''23456789''" and "take 3 n \<notin> set invalid_codes"
    and "hd (drop 3 n) \<in> set ''23456789''" and "take 3 (drop 3 n) \<notin> set invalid_codes"
    and "drop 1 (take 3 (drop 3 n)) \<noteq> ''11''"
  shows "PhoneNumber_init (PyStr n) =
           Inr \<lparr>area_code = take 3 n, exchange_code = take 3 (drop 3 n), line_number = drop 6 n\<rparr>
         \<and> PhoneNumber_int \<lparr>area_code = take 3 n, exchange_code = take 3 (drop 3 n),
                             line_number = drop 6 n\<rparr> = Inr (decimal_value n)"
proof -
  let ?p = "\<lparr>area_code = take 3 n, exchange_code = take 3 (drop 3 n), line_number = drop 6 n\<rparr>"
  have c: "re_sub_non_alnum (py_str (PyStr n)) = n"
    using assms(2) by (simp add: clean_alnum digits_alnum)
  have k: "map keypad n = n"
    using assms(2) by (rule map_keypad_digits)
  have init: "PhoneNumber_init (PyStr n) = validate ?p"
    using PhoneNumber_init_length10 [of "PyStr n"] assms(1) c k by simp
  have ne: "area_code ?p \<noteq> []" "exchange_code ?p \<noteq> []"
    using assms(1) by auto
  have hd3: "hd (take 3 n) = hd n" "hd (take 3 (drop 3 n)) = hd (drop 3 n)"
    using assms(1) by (simp_all add: hd_take)
  have "validate ?p = Inr ?p"
    unfolding validate_nonempty [OF ne] using assms(3-7) hd3 by auto
  moreover have "n \<noteq> []"
    using assms(1) by auto
  then have "PhoneNumber_int ?p = Inr (decimal_value n)"
    using py_int_digits [of n] assms(2)
    by (simp add: PhoneNumber_int_def take_drop_fields)
  ultimately show ?thesis
    using init by simp
qed

theorem valid_digits_roundtrip_witness:
  "PhoneNumber_init (PyStr ''2125550100'') =
       Inr \<lparr>area_code = ''212'', exchange_code = ''555'', line_number = ''0100''\<rparr>
   \<and> PhoneNumber_int \<lparr>area_code = ''212'', exchange_code = ''555'', line_number = ''0100''\<rparr>
       = Inr 2125550100
   \<and> list_all is_digit ''2125550100''"
proof -
  have d: "list_all is_digit ''2125550100''"
    by (simp add: is_digit_def)
  have v: "decimal_value ''2125550100'' = 2125550100"
    by (simp add: digit_value_def)
  from valid_digits_roundtrip [of "''2125550100''"] d v show ?thesis
    by (simp add: invalid_codes_def)
qed

section \<open>Fields of a constructed number and the display string\<close>

lemma clean_is_alnum: "list_all is_alnum (re_sub_non_alnum s)"
  by (simp add: re_sub_non_alnum_def list_all_iff)

lemma keypad_field_chars:
  "list_all is_alnum s \<Longrightarrow> list_all (\<lambda>c. is_digit c \<or> is_lower c) (map keypad s)"
  by (induction s) (simp_all add: keypad_alnum)

lemma list_all_take: "list_all P xs \<Longrightarrow> list_all P (take n xs)"
  by (auto simp: list_all_iff dest: in_set_takeD)

lemma list_all_drop: "list_all P xs \<Longrightarrow> list_all P (drop n xs)"
  by (auto simp: list_all_iff dest: in_set_dropD)

lemma init_not_other: "PhoneNumber_init x = Inr p \<Longrightarrow> x \<noteq> PyOther"
  by (auto simp: PhoneNumber_init_def)

lemma init_success_fields:
  assumes "PhoneNumber_init x = Inr p"
  shows "length (area_code p) = 3 \<and> length (exchange_code p) = 3 \<and> length (line_number p) = 4
    \<and> list_all (\<lambda>c. is_digit c \<or> is_lower c) (area_code p)
    \<and> list_all (\<lambda>c. is_digit c \<or> is_lower c) (exchange_code p)
    \<and> list_all (\<lambda>c. is_digit c \<or> is_lower c) (line_number p)
    \<and> validate p = Inr p"
proof -
  let ?ns = "re_sub_non_alnum (py_str x)"
  let ?st = "map keypad ?ns"
  have x: "x \<noteq> PyOther"
    using assms by (rule init_not_other)
  have fc: "list_all (\<lambda>c. is_digit c \<or> is_lower c) ?st"
    using clean_is_alnum by (rule keypad_field_chars)
  consider (ten) "length ?ns = 10"
    | (eleven) "length ?ns \<noteq> 10" "length ?ns = 11" "hd ?ns = CHR ''1''"
    | (other) "length ?ns \<noteq> 10" "\<not> (length ?ns = 11 \<and> hd ?ns = CHR ''1'')"
    by blast
  then show ?thesis
  proof cases
    case ten
    let ?q = "\<lparr>area_code = take 3 ?st, exchange_code = take 3 (drop 3 ?st),
               line_number = drop 6 ?st\<rparr>"
    have v: "validate ?q = Inr p"
      using PhoneNumber_init_length10 [OF x ten] assms by simp
    then have q: "?q = p"
      by (rule validate_Inr)
    have "length (area_code ?q) = 3 \<and> length (exchange_code ?q) = 3
        \<and> length (line_number ?q) = 4"
      using ten by simp
    moreover have "list_all (\<lambda>c. is_digit c \<or> is_lower c) (area_code ?q)
        \<and> list_all (\<lambda>c. is_digit c \<or> is_lower c) (exchange_code ?q)
        \<and> list_all (\<lambda>c. is_digit c \<or> is_lower c) (line_number ?q)"
      using fc by (simp add: list_all_take list_all_drop)
    ultimately show ?thesis
      using v unfolding q by simp
  next
    case eleven
    let ?q = "\<lparr>area_code = take 3 (drop 1 ?st), exchange_code = take 3 (drop 4 ?st),
               line_number = drop 7 ?st\<rparr>"
    have v: "validate ?q = Inr p"
      using PhoneNumber_init_length11 [OF x eleven(2,3)] assms by simp
    then have q: "?q = p"
      by (rule validate_Inr)
    have "length (area_code ?q) = 3 \<and> length (exchange_code ?q) = 3
        \<and> length (line_number ?q) = 4"
      using eleven(2) by simp
    moreover have "list_all (\<lambda>c. is_digit c \<or> is_lower c) (area_code ?q)
        \<and> list_all (\<lambda>c. is_digit c \<or> is_lower c) (exchange_code ?q)
        \<and> list_all (\<lambda>c. is_digit c \<or> is_lower c) (line_number ?q)"
      using fc by (simp add: list_all_take list_all_drop)
    ultimately show ?thesis
      using v unfolding q by simp
  next
    case other
    then show ?thesis
      using PhoneNumber_init_other_length [OF x] assms by simp
  qed
qed

lemma field_chars_alnum:
  "list_all (\<lambda>c. is_digit c \<or> is_lower c) s \<Longrightarrow> list_all is_alnum s"
  by (induction s) (auto simp: is_alnum_def)

lemma map_keypad_field_chars:
  "list_all (\<lambda>c. is_digit c \<or> is_lower c) s \<Longrightarrow> map keypad s = s"
  by (induction s) (simp_all add: keypad_idem)

lemma punctuation_not_alnum:
  "\<not> is_alnum (CHR ''('')" "\<not> is_alnum (CHR '')'')" "\<not> is_alnum (CHR '' '')"
  "\<not> is_alnum (CHR ''-'')"
  by (simp_all add: is_alnum_def is_digit_def is_lower_def is_upper_def)

lemma clean_append: "re_sub_non_alnum (s @ t) = re_sub_non_alnum s @ re_sub_non_alnum t"
  by (simp add: re_sub_non_alnum_def)

lemma clean_display:
  assumes "list_all is_alnum a" and "list_all is_alnum e" and "list_all is_alnum l"
  shows "re_sub_non_alnum
     (PhoneNumber_str \<lparr>area_code = a, exchange_code = e, line_number = l\<rparr>) = a @ e @ l"
proof -
  have "filter is_alnum a = a" "filter is_alnum e = e" "filter is_alnum l = l"
    using assms clean_alnum by (simp_all add: re_sub_non_alnum_def)
  then show ?thesis
    by (simp add: PhoneNumber_str_def re_sub_non_alnum_def punctuation_not_alnum)
qed


text \<open>
  The display string of a constructed number is accepted by the constructor again, and
  the number built from it has the same three fields. Whether that number has an integer
  value is a separate matter, settled further below.
\<close>

lemma display_roundtrip_fields:
  assumes "PhoneNumber_init x = Inr p"
  shows "PhoneNumber_init (PyStr (PhoneNumber_str p)) = Inr p"
proof -
  obtain a e l where p: "p = \<lparr>area_code = a, exchange_code = e, line_number = l\<rparr>"
    by (cases p) simp
  from init_success_fields [OF assms]
  have len: "length a = 3" "length e = 3" "length l = 4"
    and fa: "list_all (\<lambda>c. is_digit c \<or> is_lower c) a"
    and fe: "list_all (\<lambda>c. is_digit c \<or> is_lower c) e"
    and fl: "list_all (\<lambda>c. is_digit c \<or> is_lower c) l"
    and v: "validate p = Inr p"
    unfolding p by simp_all
  have c: "re_sub_non_alnum (py_str (PyStr (PhoneNumber_str p))) = a @ e @ l"
    unfolding p py_str.simps
    by (rule clean_display) (simp_all add: fa fe fl field_chars_alnum)
  have k: "map keypad (a @ e @ l) = a @ e @ l"
    by (rule map_keypad_field_chars) (simp add: fa fe fl)
  have "length (re_sub_non_alnum (py_str (PyStr (PhoneNumber_str p)))) = 10"
    unfolding c using len by simp
  from PhoneNumber_init_length10 [OF _ this]
  have "PhoneNumber_init (PyStr (PhoneNumber_str p)) = validate p"
    unfolding c k using len by (simp add: p)
  then show ?thesis
    using v by simp
qed

lemma display_example: 
  "PhoneNumber_str \<lparr>area_code = ''212'', exchange_code = ''555'', line_number = ''0100''\<rparr>
     = ''(212) 555-0100''"
  by (simp add: PhoneNumber_str_def)

lemma display_roundtrip_example:
  "PhoneNumber_init (PyStr ''2125550100'') =
       Inr \<lparr>area_code = ''212'', exchange_code = ''555'', line_number = ''0100''\<rparr>
   \<and> PhoneNumber_init (PyStr ''(212) 555-0100'') =
       Inr \<lparr>area_code = ''212'', exchange_code = ''555'', line_number = ''0100''\<rparr>"
  using display_roundtrip_fields [OF init_example_plain] init_example_plain
  unfolding display_example by simp

section \<open>Integer inputs and lower-case letters\<close>

lemma init_depends_on_cleaned:
  assumes "x \<noteq> PyOther" and "y \<noteq> PyOther"
    and "re_sub_non_alnum (py_str x) = re_sub_non_alnum (py_str y)"
  shows "PhoneNumber_init x = PhoneNumber_init y"
  using assms by (simp add: PhoneNumber_init_def)

lemma clean_idem: "re_sub_non_alnum (re_sub_non_alnum s) = re_sub_non_alnum s"
  by (simp add: re_sub_non_alnum_def)

lemma clean_minus: "re_sub_non_alnum (CHR ''-'' # s) = re_sub_non_alnum s"
  by (simp add: re_sub_non_alnum_def punctuation_not_alnum)

lemma clean_str_int_neg: "re_sub_non_alnum (str_int (- i)) = re_sub_non_alnum (str_int i)"
  by (cases "i < 0"; cases "i = 0") (simp_all add: str_int_def clean_minus)

lemma str_int_example: "str_int (- 2125550100) = ''-2125550100''"
  by (simp add: str_int_def str_nat.simps digit_char_def)

lemma clean_example_negative: "re_sub_non_alnum ''-2125550100'' = ''2125550100''"
  by (simp add: clean_minus clean_example_plain)

text \<open>
  Claim C10. For every integer input i, the constructor behaves on i as it does on the
  string str(i), and as it does on str(i) with the characters that are not letters or
  digits (a leading minus sign among them) removed. So a negative integer gives what its
  absolute value gives: -2125550100 is accepted and yields the number of 2125550100.
\<close>

theorem integer_input_as_string:
  "PhoneNumber_init (PyInt i) = PhoneNumber_init (PyStr (str_int i))
   \<and> PhoneNumber_init (PyInt i) = PhoneNumber_init (PyStr (re_sub_non_alnum (str_int i)))
   \<and> PhoneNumber_init (PyInt (- i)) = PhoneNumber_init (PyInt i)
   \<and> PhoneNumber_init (PyInt (- 2125550100)) =
       Inr \<lparr>area_code = ''212'', exchange_code = ''555'', line_number = ''0100''\<rparr>"
proof -
  have a: "PhoneNumber_init (PyInt i) = PhoneNumber_init (PyStr (str_int i))"
    by (rule init_depends_on_cleaned) simp_all
  have b: "PhoneNumber_init (PyInt i) = PhoneNumber_init (PyStr (re_sub_non_alnum (str_int i)))"
    by (rule init_depends_on_cleaned) (simp_all add: clean_idem)
  have c: "PhoneNumber_init (PyInt (- i)) = PhoneNumber_init (PyInt i)"
    by (rule init_depends_on_cleaned) (simp_all add: clean_str_int_neg)
  have "PhoneNumber_init (PyInt (- 2125550100)) = PhoneNumber_init (PyStr ''2125550100'')"
    by (rule init_depends_on_cleaned)
       (simp_all add: str_int_example clean_example_negative clean_example_plain)
  then show ?thesis
    using a b c by (simp only: init_example_plain simp_thms)
qed

theorem integer_input_as_string_witness:
  "PhoneNumber_init (PyInt 2125550100) =
       Inr \<lparr>area_code = ''212'', exchange_code = ''555'', line_number = ''0100''\<rparr>
   \<and> PhoneNumber_init (PyInt (- 2125550100)) = PhoneNumber_init (PyInt 2125550100)"
proof -
  from integer_input_as_string [of 2125550100]
  have "PhoneNumber_init (PyInt (- 2125550100)) = PhoneNumber_init (PyInt 2125550100)"
    and "PhoneNumber_init (PyInt (- 2125550100)) =
       Inr \<lparr>area_code = ''212'', exchange_code = ''555'', line_number = ''0100''\<rparr>"
    by blast+
  then show ?thesis by simp
qed

text \<open>
  Claim C2. The claim says that no field of a constructed number ever holds a character
  that is not a digit. The pattern of the constructor keeps the lower-case letters, but
  the table \<open>LETTER_TO_NUMBER\<close> has upper-case keys only, so a lower-case letter reaches
  the fields: on \<open>a125550100\<close> the constructor succeeds with the area code \<open>a12\<close>, whose
  first character is not a digit from 2 to 9, and \<open>__int__\<close> of that number raises
  ValueError.
\<close>

theorem lowercase_letter_in_field:
  "PhoneNumber_init (PyStr ''a125550100'') =
       Inr \<lparr>area_code = ''a12'', exchange_code = ''555'', line_number = ''0100''\<rparr>
   \<and> \<not> is_digit (hd ''a12'')
   \<and> PhoneNumber_int \<lparr>area_code = ''a12'', exchange_code = ''555'', line_number = ''0100''\<rparr>
       = Inl (invalid_literal ''a125550100'')"
proof -
  have c: "re_sub_non_alnum (py_str (PyStr ''a125550100'')) = ''a125550100''"
    by (simp add: re_sub_non_alnum_def is_alnum_def is_digit_def is_lower_def)
  have k: "map keypad ''a125550100'' = ''a125550100''"
    by (simp add: keypad_def LETTER_TO_NUMBER_def)
  have "length (re_sub_non_alnum (py_str (PyStr ''a125550100''))) = 10"
    unfolding c by simp
  from PhoneNumber_init_length10 [OF _ this]
  have "PhoneNumber_init (PyStr ''a125550100'') =
       Inr \<lparr>area_code = ''a12'', exchange_code = ''555'', line_number = ''0100''\<rparr>"
    unfolding c k by (simp add: validate_nonempty invalid_codes_def)
  then show ?thesis
    by (simp add: PhoneNumber_int_def py_int_def is_digit_def)
qed

text \<open>
  Claim C3. The claim says that the constructor treats a string and its upper-case form
  alike. The loop of the constructor looks each character up in \<open>LETTER_TO_NUMBER\<close>,
  whose keys are the upper-case letters only: on \<open>1-800-flowers\<close> the letters stay as
  they are, on \<open>1-800-FLOWERS\<close> they become 3569377.
\<close>

theorem lowercase_not_translated:
  "PhoneNumber_init (PyStr ''1-800-flowers'') =
       Inr \<lparr>area_code = ''800'', exchange_code = ''flo'', line_number = ''wers''\<rparr>
   \<and> upper ''1-800-flowers'' = ''1-800-FLOWERS''
   \<and> PhoneNumber_init (PyStr (upper ''1-800-flowers'')) =
       Inr \<lparr>area_code = ''800'', exchange_code = ''356'', line_number = ''9377''\<rparr>"
proof -
  have u: "upper ''1-800-flowers'' = ''1-800-FLOWERS''"
    by (simp add: upper_def upper_char_def)
  have c1: "re_sub_non_alnum (py_str (PyStr ''1-800-flowers'')) = ''1800flowers''"
    by (simp add: re_sub_non_alnum_def is_alnum_def is_digit_def is_lower_def is_upper_def)
  have c2: "re_sub_non_alnum (py_str (PyStr ''1-800-FLOWERS'')) = ''1800FLOWERS''"
    by (simp add: re_sub_non_alnum_def is_alnum_def is_digit_def is_lower_def is_upper_def)
  have k1: "map keypad ''1800flowers'' = ''1800flowers''"
    by (simp add: keypad_def LETTER_TO_NUMBER_def)
  have k2: "map keypad ''1800FLOWERS'' = ''18003569377''"
    by (simp add: keypad_def LETTER_TO_NUMBER_def)
  have l1: "length (re_sub_non_alnum (py_str (PyStr ''1-800-flowers''))) = 11"
    and h1: "hd (re_sub_non_alnum (py_str (PyStr ''1-800-flowers''))) = CHR ''1''"
    unfolding c1 by simp_all
  have l2: "length (re_sub_non_alnum (py_str (PyStr ''1-800-FLOWERS''))) = 11"
    and h2: "hd (re_sub_non_alnum (py_str (PyStr ''1-800-FLOWERS''))) = CHR ''1''"
    unfolding c2 by simp_all
  have a: "PhoneNumber_init (PyStr ''1-800-flowers'') =
       Inr \<lparr>area_code = ''800'', exchange_code = ''flo'', line_number = ''wers''\<rparr>"
    using PhoneNumber_init_length11 [OF _ l1 h1]
    unfolding c1 k1 by (simp add: validate_nonempty invalid_codes_def)
  have b: "PhoneNumber_init (PyStr ''1-800-FLOWERS'') =
       Inr \<lparr>area_code = ''800'', exchange_code = ''356'', line_number = ''9377''\<rparr>"
    using PhoneNumber_init_length11 [OF _ l2 h2]
    unfolding c2 k2 by (simp add: validate_nonempty invalid_codes_def)
  show ?thesis
    unfolding u using a b by simp
qed

section \<open>Lines that cannot be unpacked\<close>

lemma init_no_IndexError: "PhoneNumber_init x \<noteq> Inl (IndexError m)"
proof (cases "x = PyOther")
  case True
  then show ?thesis
    by (simp add: PhoneNumber_init_def TypeMismatch_def)
next
  case x: False
  let ?ns = "re_sub_non_alnum (py_str x)"
  let ?st = "map keypad ?ns"
  consider (ten) "length ?ns = 10"
    | (eleven) "length ?ns \<noteq> 10" "length ?ns = 11" "hd ?ns = CHR ''1''"
    | (other) "length ?ns \<noteq> 10" "\<not> (length ?ns = 11 \<and> hd ?ns = CHR ''1'')"
    by blast
  then show ?thesis
  proof cases
    case ten
    let ?q = "\<lparr>area_code = take 3 ?st, exchange_code = take 3 (drop 3 ?st),
               line_number = drop 6 ?st\<rparr>"
    have "area_code ?q \<noteq> []" "exchange_code ?q \<noteq> []"
      using ten by auto
    from validate_nonempty [OF this] show ?thesis
      unfolding PhoneNumber_init_length10 [OF x ten] by (simp add: InvalidCode_def)
  next
    case eleven
    let ?q = "\<lparr>area_code = take 3 (drop 1 ?st), exchange_code = take 3 (drop 4 ?st),
               line_number = drop 7 ?st\<rparr>"
    have "area_code ?q \<noteq> []" "exchange_code ?q \<noteq> []"
      using eleven(2) by auto
    from validate_nonempty [OF this] show ?thesis
      unfolding PhoneNumber_init_length11 [OF x eleven(2,3)] by (simp add: InvalidCode_def)
  next
    case other
    then show ?thesis
      using PhoneNumber_init_other_length [OF x] by (simp add: InvalidLength_def)
  qed
qed

lemma length_split_loop:
  "length (split_loop sep cur s) = Suc (length (filter (\<lambda>c. c = sep) s))"
  by (induction s arbitrary: cur) simp_all

lemma length_split: "length (split sep s) = Suc (length (filter (\<lambda>c. c = sep) s))"
  by (simp add: split_def length_split_loop)

lemma unpack_error_ValueError: "\<exists>m. unpack_error parts = ValueError m"
  by (simp add: unpack_error_def)

lemma read_loop_step_bad:
  assumes "length (split TAB (strip line)) \<noteq> 2"
  shows "read_loop tup_list (line # rest) = Inl (unpack_error (split TAB (strip line)))"
  using assms by (auto split: list.splits)

lemma read_loop_step_good:
  assumes "split TAB (strip line) = [name, number]"
  shows "read_loop tup_list (line # rest) =
    (case PhoneNumber_init (PyStr number) of
       Inr phone_number \<Rightarrow> read_loop (tup_list @ [(name, phone_number)]) rest
     | Inl e \<Rightarrow> read_loop tup_list rest)"
proof (cases "PhoneNumber_init (PyStr number)")
  case (Inl e)
  then show ?thesis
    using assms init_no_IndexError [of "PyStr number"] by (cases e) simp_all
next
  case (Inr p)
  then show ?thesis
    using assms by simp
qed

lemma length_two: "length xs = 2 \<Longrightarrow> \<exists>a b. xs = [a, b]"
  by (cases xs; cases "tl xs") auto

lemma read_loop_bad_line:
  assumes "line \<in> set lines" and "length (split TAB (strip line)) \<noteq> 2"
  shows "\<exists>m. read_loop tup_list lines = Inl (ValueError m)"
  using assms
proof (induction lines arbitrary: tup_list)
  case Nil
  then show ?case by simp
next
  case (Cons first rest)
  show ?case
  proof (cases "length (split TAB (strip first)) = 2")
    case False
    then show ?thesis
      using read_loop_step_bad [OF False] unpack_error_ValueError by metis
  next
    case True
    then obtain name number where s: "split TAB (strip first) = [name, number]"
      using length_two by blast
    have "line \<in> set rest"
      using Cons.prems True by auto
    then have ih: "\<exists>m. read_loop t rest = Inl (ValueError m)" for t
      using Cons.IH Cons.prems(2) by blast
    show ?thesis
      unfolding read_loop_step_good [OF s] using ih by (simp split: sum.splits)
  qed
qed

text \<open>
  Claim C9. In \<open>read_numbers\<close> only the errors of the constructor are dropped. A line
  that, after stripping, holds no tab or more than one tab cannot be unpacked into a name
  and a number: the ValueError of the unpacking leaves \<open>read_numbers\<close>, which returns
  no list of entries, whatever the other lines are.
\<close>

theorem malformed_line_propagates:
  assumes "line \<in> set lines"
    and "length (filter (\<lambda>c. c = TAB) (strip line)) \<noteq> 1"
  shows "\<exists>m. read_numbers lines = Inl (ValueError m)"
proof -
  have "length (split TAB (strip line)) \<noteq> 2"
    using assms(2) by (simp add: length_split)
  from read_loop_bad_line [OF assms(1) this, of "[]"] show ?thesis
    by (auto simp: read_numbers_def)
qed

theorem malformed_line_propagates_witness:
  "(\<exists>m. read_numbers [''Alice'' @ [TAB] @ ''212-555-0100'' @ [CHR 0x0A],
                        ''Bob 202-555-0199'' @ [CHR 0x0A]] = Inl (ValueError m))
   \<and> length (filter (\<lambda>c. c = TAB) (strip (''Bob 202-555-0199'' @ [CHR 0x0A]))) = 0"
proof -
  have s: "strip (''Bob 202-555-0199'' @ [CHR 0x0A]) = ''Bob 202-555-0199''"
    by (simp add: strip_def is_space_def)
  have t: "length (filter (\<lambda>c. c = TAB) (strip (''Bob 202-555-0199'' @ [CHR 0x0A]))) = 0"
    unfolding s by (simp add: TAB_def)
  have "\<exists>m. read_numbers [''Alice'' @ [TAB] @ ''212-555-0100'' @ [CHR 0x0A],
                        ''Bob 202-555-0199'' @ [CHR 0x0A]] = Inl (ValueError m)"
    by (rule malformed_line_propagates [where line = "''Bob 202-555-0199'' @ [CHR 0x0A]"])
       (simp_all only: t list.set insert_iff simp_thms)
  then show ?thesis
    using t by blast
qed

section \<open>The sorted directory\<close>














lemma int_example_alice:
  "PhoneNumber_int \<lparr>area_code = ''212'', exchange_code = ''555'', line_number = ''0100''\<rparr>
     = Inr 2125550100"
  by (simp add: PhoneNumber_int_def py_int_def is_digit_def digit_value_def)




section \<open>Inputs without lower-case letters, and sorting with them\<close>

lemma digit_codes: "map of_char ''0123456789'' = [48..<58::nat]"
  by (simp add: upt_rec)

lemma is_digit_iff: "is_digit c = (c \<in> set ''0123456789'')"
proof -
  have "is_digit c = ((of_char c :: nat) \<in> set [48..<58])"
    unfolding is_digit_def set_upt atLeastLessThan_iff by arith
  also have "\<dots> = ((of_char c :: nat) \<in> of_char ` set ''0123456789'')"
    by (simp only: digit_codes [symmetric] set_map)
  also have "\<dots> = (c \<in> set ''0123456789'')"
    by (rule inj_image_mem_iff) (rule inj_of_char)
  finally show ?thesis .
qed

lemma keypad_no_lower:
  assumes "is_alnum c" and "\<not> is_lower c"
  shows "is_digit (keypad c)"
  using assms keypad_upper [of c] keypad_digits [of "keypad c"] keypad_idem [of c]
  unfolding is_alnum_def by metis

lemma keypad_no_lower_list:
  "list_all is_alnum s \<Longrightarrow> list_all (\<lambda>c. \<not> is_lower c) s \<Longrightarrow> list_all is_digit (map keypad s)"
  by (induction s) (simp_all add: keypad_no_lower)

lemma validate_first_digit:
  assumes "validate p = Inr p" and "area_code p \<noteq> []" and "is_digit (hd (area_code p))"
  shows "hd (area_code p) \<in> set ''23456789''"
proof -
  have "area_code p \<noteq> []" by fact
  then obtain c cs where a: "area_code p = c # cs"
    by (cases "area_code p") auto
  have "c \<notin> set ''01''"
    using assms(1) a by (auto simp: validate_def getitem0_def split: if_splits sum.splits)
  moreover have "c \<in> set ''0123456789''"
    using assms(3) a by (simp only: is_digit_iff list.sel)
  ultimately show ?thesis
    using a by auto
qed

text \<open>
  What does hold of the fields: when the cleaned input has no lower-case letter, a
  constructed number has an area code of 3 digits whose first is 2 to 9, an exchange code
  of 3 digits and a line number of 4 digits.
\<close>

lemma init_success_digits:
  assumes "PhoneNumber_init x = Inr p"
    and "list_all (\<lambda>c. \<not> is_lower c) (re_sub_non_alnum (py_str x))"
  shows "length (area_code p) = 3 \<and> list_all is_digit (area_code p)
    \<and> hd (area_code p) \<in> set ''23456789''
    \<and> length (exchange_code p) = 3 \<and> list_all is_digit (exchange_code p)
    \<and> length (line_number p) = 4 \<and> list_all is_digit (line_number p)"
proof -
  let ?ns = "re_sub_non_alnum (py_str x)"
  let ?st = "map keypad ?ns"
  have x: "x \<noteq> PyOther"
    using assms(1) by (rule init_not_other)
  have d: "list_all is_digit ?st"
    using clean_is_alnum assms(2) by (rule keypad_no_lower_list)
  from init_success_fields [OF assms(1)]
  have len: "length (area_code p) = 3" "length (exchange_code p) = 3"
      "length (line_number p) = 4"
    and v: "validate p = Inr p"
    by simp_all
  have fields: "list_all is_digit (area_code p) \<and> list_all is_digit (exchange_code p)
      \<and> list_all is_digit (line_number p)"
  proof (cases "length ?ns = 10")
    case True
    from PhoneNumber_init_length10 [OF x True] assms(1)
    have "validate \<lparr>area_code = take 3 ?st, exchange_code = take 3 (drop 3 ?st),
               line_number = drop 6 ?st\<rparr> = Inr p"
      by simp
    from validate_Inr [OF this, symmetric] show ?thesis
      using d by (simp add: list_all_take list_all_drop)
  next
    case False
    then have e: "length ?ns = 11" "hd ?ns = CHR ''1''"
      using PhoneNumber_init_other_length [OF x False] assms(1) by auto
    from PhoneNumber_init_length11 [OF x e] assms(1)
    have "validate \<lparr>area_code = take 3 (drop 1 ?st), exchange_code = take 3 (drop 4 ?st),
               line_number = drop 7 ?st\<rparr> = Inr p"
      by simp
    from validate_Inr [OF this, symmetric] show ?thesis
      using d by (simp add: list_all_take list_all_drop)
  qed
  have ne: "area_code p \<noteq> []"
    using len(1) by auto
  then have "is_digit (hd (area_code p))"
    using fields by (cases "area_code p") simp_all
  from validate_first_digit [OF v ne this] show ?thesis
    using len fields by simp
qed

text \<open>
  A number with a lower-case letter in a field has no integer value, so sorting a
  directory of two or more entries that holds such a number raises the ValueError of
  \<open>int()\<close> and \<open>read_numbers\<close> returns no list.
\<close>

lemma read_numbers_lowercase_example:
  "read_numbers [''Ann'' @ [TAB] @ ''a125550100'' @ [CHR 0x0A],
                 ''Ben'' @ [TAB] @ ''2125550100'' @ [CHR 0x0A]] =
     Inl (invalid_literal ''a125550100'')"
proof -
  have f1: "split TAB (strip (''Ann'' @ [TAB] @ ''a125550100'' @ [CHR 0x0A])) = [''Ann'', ''a125550100'']"
    by (simp add: strip_def is_space_def split_def TAB_def)
  have f2: "split TAB (strip (''Ben'' @ [TAB] @ ''2125550100'' @ [CHR 0x0A])) = [''Ben'', ''2125550100'']"
    by (simp add: strip_def is_space_def split_def TAB_def)
  have c: "re_sub_non_alnum (py_str (PyStr ''a125550100'')) = ''a125550100''"
    by (simp add: re_sub_non_alnum_def is_alnum_def is_digit_def is_lower_def)
  have k: "map keypad ''a125550100'' = ''a125550100''"
    by (simp add: keypad_def LETTER_TO_NUMBER_def)
  have "length (re_sub_non_alnum (py_str (PyStr ''a125550100''))) = 10"
    unfolding c by simp
  from PhoneNumber_init_length10 [OF _ this]
  have i1: "PhoneNumber_init (PyStr ''a125550100'') =
       Inr \<lparr>area_code = ''a12'', exchange_code = ''555'', line_number = ''0100''\<rparr>"
    unfolding c k by (simp add: validate_nonempty invalid_codes_def)
  have n1: "PhoneNumber_int \<lparr>area_code = ''a12'', exchange_code = ''555'', line_number = ''0100''\<rparr>
       = Inl (invalid_literal ''a125550100'')"
    by (simp add: PhoneNumber_int_def py_int_def is_digit_def)
  have "read_loop [] [''Ann'' @ [TAB] @ ''a125550100'' @ [CHR 0x0A],
                 ''Ben'' @ [TAB] @ ''2125550100'' @ [CHR 0x0A]] =
     Inr [(''Ann'', \<lparr>area_code = ''a12'', exchange_code = ''555'', line_number = ''0100''\<rparr>),
          (''Ben'', \<lparr>area_code = ''212'', exchange_code = ''555'', line_number = ''0100''\<rparr>)]"
    unfolding read_loop_step_good [OF f1] read_loop_step_good [OF f2] i1 init_example_plain
    by simp
  then show ?thesis
    by (simp add: read_numbers_def PhoneNumber_lt_def int_example_alice n1)
qed

section \<open>The display string and the integer value\<close>

text \<open>
  When the cleaned input has no lower-case letter, the number and the number built from
  its display string have the same integer value.
\<close>

lemma display_roundtrip_digits:
  assumes "PhoneNumber_init x = Inr p"
    and "list_all (\<lambda>c. \<not> is_lower c) (re_sub_non_alnum (py_str x))"
  shows "\<exists>v. PhoneNumber_init (PyStr (PhoneNumber_str p)) = Inr p
           \<and> PhoneNumber_int p = Inr v \<and> PhoneNumber_lt p p = Inr False"
proof -
  from init_success_digits [OF assms]
  have d: "list_all is_digit (area_code p @ exchange_code p @ line_number p)"
    and n: "area_code p @ exchange_code p @ line_number p \<noteq> []"
    by auto
  from py_int_digits [OF n d]
  have i: "PhoneNumber_int p
      = Inr (decimal_value (area_code p @ exchange_code p @ line_number p))"
    by (simp add: PhoneNumber_int_def)
  then have "PhoneNumber_lt p p = Inr False"
    by (simp add: PhoneNumber_lt_def)
  then show ?thesis
    using display_roundtrip_fields [OF assms(1)] i by simp
qed

lemma init_example_lowercase:
  "PhoneNumber_init (PyStr ''a125550100'') =
     Inr \<lparr>area_code = ''a12'', exchange_code = ''555'', line_number = ''0100''\<rparr>"
proof -
  have c: "re_sub_non_alnum (py_str (PyStr ''a125550100'')) = ''a125550100''"
    by (simp add: re_sub_non_alnum_def is_alnum_def is_digit_def is_lower_def)
  have k: "map keypad ''a125550100'' = ''a125550100''"
    by (simp add: keypad_def LETTER_TO_NUMBER_def)
  have "length (re_sub_non_alnum (py_str (PyStr ''a125550100''))) = 10"
    unfolding c by simp
  from PhoneNumber_init_length10 [OF _ this] show ?thesis
    unfolding c k by (simp add: validate_nonempty invalid_codes_def)
qed

lemma int_example_lowercase:
  "PhoneNumber_int \<lparr>area_code = ''a12'', exchange_code = ''555'', line_number = ''0100''\<rparr>
     = Inl (invalid_literal ''a125550100'')"
  by (simp add: PhoneNumber_int_def py_int_def is_digit_def)

lemma display_example_lowercase:
  "PhoneNumber_str \<lparr>area_code = ''a12'', exchange_code = ''555'', line_number = ''0100''\<rparr>
     = ''(a12) 555-0100''"
  by (simp add: PhoneNumber_str_def)

text \<open>
  Claim C8. The claim says that the number built from the display string of a constructed
  number is equal to it under the ordering, that is, has the same integer value. The
  constructor accepts \<open>a125550100\<close>, whose lower-case letter no key of
  \<open>LETTER_TO_NUMBER\<close> translates. Its display string \<open>(a12) 555-0100\<close> is accepted
  again and gives the same three fields, but neither number has an integer value:
  \<open>__int__\<close> raises ValueError on both, and so does the comparison \<open>__lt__\<close> of the
  one with the other.
\<close>

theorem display_roundtrip_no_integer_value:
  "PhoneNumber_init (PyStr ''a125550100'') =
       Inr \<lparr>area_code = ''a12'', exchange_code = ''555'', line_number = ''0100''\<rparr>
   \<and> PhoneNumber_str \<lparr>area_code = ''a12'', exchange_code = ''555'', line_number = ''0100''\<rparr>
       = ''(a12) 555-0100''
   \<and> PhoneNumber_init (PyStr ''(a12) 555-0100'') =
       Inr \<lparr>area_code = ''a12'', exchange_code = ''555'', line_number = ''0100''\<rparr>
   \<and> PhoneNumber_int \<lparr>area_code = ''a12'', exchange_code = ''555'', line_number = ''0100''\<rparr>
       = Inl (invalid_literal ''a125550100'')
   \<and> PhoneNumber_lt \<lparr>area_code = ''a12'', exchange_code = ''555'', line_number = ''0100''\<rparr>
         \<lparr>area_code = ''a12'', exchange_code = ''555'', line_number = ''0100''\<rparr>
       = Inl (invalid_literal ''a125550100'')"
proof -
  have "PhoneNumber_init (PyStr ''(a12) 555-0100'') =
       Inr \<lparr>area_code = ''a12'', exchange_code = ''555'', line_number = ''0100''\<rparr>"
    using display_roundtrip_fields [OF init_example_lowercase]
    unfolding display_example_lowercase .
  moreover have "PhoneNumber_lt \<lparr>area_code = ''a12'', exchange_code = ''555'', line_number = ''0100''\<rparr>
         \<lparr>area_code = ''a12'', exchange_code = ''555'', line_number = ''0100''\<rparr>
       = Inl (invalid_literal ''a125550100'')"
    unfolding PhoneNumber_lt_def int_example_lowercase by simp
  ultimately show ?thesis
    using init_example_lowercase display_example_lowercase int_example_lowercase
    by (simp only: simp_thms)
qed

end
